theory Spec2Isabelle
  imports Main "HOL-Library.Word" "HOL-Library.Signed_Division"
begin

section \<open>Ampire AM-4001280ATZQW-00H MIPI-DSI panel driver\<close>

text \<open>
  A shallow embedding of \<^verbatim>\<open>panel-ampire-am4001280atzqw00h.c\<close>: the lifecycle callbacks
  (prepare, unprepare, suspend, resume, enable, disable, wait), the command upload
  \<^verbatim>\<open>push_cmd_list\<close> and the backlight update callback. Calls that leave the driver
  (regulators, GPIO, DSI transfers, sleeps, the clock) are recorded in a log together
  with the value they returned; the values come from a hardware oracle.
\<close>

subsection \<open>Data\<close>

type_synonym u8 = "8 word"
type_synonym u16 = "16 word"
type_synonym u32 = "32 word"

text \<open>\<^verbatim>\<open>struct cmd_set_entry { u8 cmd; u8 param; }\<close>\<close>

record cmd_set_entry =
  cmd :: u8
  param :: u8

abbreviation ENTRY :: "u8 \<Rightarrow> u8 \<Rightarrow> cmd_set_entry" where
  "ENTRY c p \<equiv> \<lparr>cmd = c, param = p\<rparr>"

text \<open>The command set pages \<^verbatim>\<open>mcs_am40001280[]\<close>, in the order of the source.\<close>

definition mcs_am40001280 :: "cmd_set_entry list" where
  "mcs_am40001280 = [
   ENTRY 0xB0 0x5A, ENTRY 0xB1 0x00, ENTRY 0x89 0x01, ENTRY 0x91 0x07,
   ENTRY 0x92 0xF9, ENTRY 0xB1 0x03, ENTRY 0x2C 0x28, ENTRY 0x00 0xB7,
   ENTRY 0x01 0x1B, ENTRY 0x02 0x00, ENTRY 0x03 0x00, ENTRY 0x04 0x00,
   ENTRY 0x05 0x00, ENTRY 0x06 0x00, ENTRY 0x07 0x00, ENTRY 0x08 0x00,
   ENTRY 0x09 0x00, ENTRY 0x0A 0x01, ENTRY 0x0B 0x01, ENTRY 0x0C 0x20,
   ENTRY 0x0D 0x00, ENTRY 0x0E 0x24, ENTRY 0x0F 0x1C, ENTRY 0x10 0xC9,
   ENTRY 0x11 0x60, ENTRY 0x12 0x70, ENTRY 0x13 0x01, ENTRY 0x14 0xE7,
   ENTRY 0x15 0xFF, ENTRY 0x16 0x3D, ENTRY 0x17 0x0E, ENTRY 0x18 0x01,
   ENTRY 0x19 0x00, ENTRY 0x1A 0x00, ENTRY 0x1B 0xFC, ENTRY 0x1C 0x0B,
   ENTRY 0x1D 0xA0, ENTRY 0x1E 0x03, ENTRY 0x1F 0x04, ENTRY 0x20 0x0C,
   ENTRY 0x21 0x00, ENTRY 0x22 0x04, ENTRY 0x23 0x81, ENTRY 0x24 0x1F,
   ENTRY 0x25 0x10, ENTRY 0x26 0x9B, ENTRY 0x2D 0x01, ENTRY 0x2E 0x84,
   ENTRY 0x2F 0x00, ENTRY 0x30 0x02, ENTRY 0x31 0x08, ENTRY 0x32 0x01,
   ENTRY 0x33 0x1C, ENTRY 0x34 0x40, ENTRY 0x35 0xFF, ENTRY 0x36 0xFF,
   ENTRY 0x37 0xFF, ENTRY 0x38 0xFF, ENTRY 0x39 0xFF, ENTRY 0x3A 0x05,
   ENTRY 0x3B 0x00, ENTRY 0x3C 0x00, ENTRY 0x3D 0x00, ENTRY 0x3E 0xCF,
   ENTRY 0x3F 0x84, ENTRY 0x40 0x28, ENTRY 0x41 0xFC, ENTRY 0x42 0x01,
   ENTRY 0x43 0x40, ENTRY 0x44 0x05, ENTRY 0x45 0xE8, ENTRY 0x46 0x16,
   ENTRY 0x47 0x00, ENTRY 0x48 0x00, ENTRY 0x49 0x88, ENTRY 0x4A 0x08,
   ENTRY 0x4B 0x05, ENTRY 0x4C 0x03, ENTRY 0x4D 0xD0, ENTRY 0x4E 0x13,
   ENTRY 0x4F 0xFF, ENTRY 0x50 0x0A, ENTRY 0x51 0x53, ENTRY 0x52 0x26,
   ENTRY 0x53 0x22, ENTRY 0x54 0x09, ENTRY 0x55 0x22, ENTRY 0x56 0x00,
   ENTRY 0x57 0x1C, ENTRY 0x58 0x03, ENTRY 0x59 0x3F, ENTRY 0x5A 0x28,
   ENTRY 0x5B 0x01, ENTRY 0x5C 0xCC, ENTRY 0x5D 0x21, ENTRY 0x5E 0x84,
   ENTRY 0x5F 0x10, ENTRY 0x60 0x42, ENTRY 0x61 0x40, ENTRY 0x62 0x06,
   ENTRY 0x63 0x3A, ENTRY 0x64 0xA6, ENTRY 0x65 0x04, ENTRY 0x66 0x09,
   ENTRY 0x67 0x21, ENTRY 0x68 0x84, ENTRY 0x69 0x10, ENTRY 0x6A 0x42,
   ENTRY 0x6B 0x08, ENTRY 0x6C 0x21, ENTRY 0x6D 0x84, ENTRY 0x6E 0x74,
   ENTRY 0x6F 0xE2, ENTRY 0x70 0x6B, ENTRY 0x71 0x6B, ENTRY 0x72 0x94,
   ENTRY 0x73 0x10, ENTRY 0x74 0x42, ENTRY 0x75 0x08, ENTRY 0x76 0x00,
   ENTRY 0x77 0x00, ENTRY 0x78 0x0F, ENTRY 0x79 0xE0, ENTRY 0x7A 0x01,
   ENTRY 0x7B 0xFF, ENTRY 0x7C 0xFF, ENTRY 0x7D 0x0F, ENTRY 0x7E 0x41,
   ENTRY 0x7F 0xFE, ENTRY 0xB1 0x02, ENTRY 0x00 0xFF, ENTRY 0x01 0x05,
   ENTRY 0x02 0xC8, ENTRY 0x03 0x00, ENTRY 0x04 0x14, ENTRY 0x05 0x4B,
   ENTRY 0x06 0x64, ENTRY 0x07 0x0A, ENTRY 0x08 0xC0, ENTRY 0x09 0x00,
   ENTRY 0x0A 0x00, ENTRY 0x0B 0x10, ENTRY 0x0C 0xE6, ENTRY 0x0D 0x0D,
   ENTRY 0x0F 0x00, ENTRY 0x10 0x3D, ENTRY 0x11 0x4C, ENTRY 0x12 0xCF,
   ENTRY 0x13 0xAD, ENTRY 0x14 0x4A, ENTRY 0x15 0x92, ENTRY 0x16 0x24,
   ENTRY 0x17 0x55, ENTRY 0x18 0x73, ENTRY 0x19 0xE9, ENTRY 0x1A 0x70,
   ENTRY 0x1B 0x0E, ENTRY 0x1C 0xFF, ENTRY 0x1D 0xFF, ENTRY 0x1E 0xFF,
   ENTRY 0x1F 0xFF, ENTRY 0x20 0xFF, ENTRY 0x21 0xFF, ENTRY 0x22 0xFF,
   ENTRY 0x23 0xFF, ENTRY 0x24 0xFF, ENTRY 0x25 0xFF, ENTRY 0x26 0xFF,
   ENTRY 0x27 0x1F, ENTRY 0x28 0xFF, ENTRY 0x29 0xFF, ENTRY 0x2A 0xFF,
   ENTRY 0x2B 0xFF, ENTRY 0x2C 0xFF, ENTRY 0x2D 0x07, ENTRY 0x33 0x3F,
   ENTRY 0x35 0x7F, ENTRY 0x36 0x3F, ENTRY 0x38 0xFF, ENTRY 0x3A 0x80,
   ENTRY 0x3B 0x01, ENTRY 0x3C 0x80, ENTRY 0x3D 0x2C, ENTRY 0x3E 0x00,
   ENTRY 0x3F 0x90, ENTRY 0x40 0x05, ENTRY 0x41 0x00, ENTRY 0x42 0xB2,
   ENTRY 0x43 0x00, ENTRY 0x44 0x40, ENTRY 0x45 0x06, ENTRY 0x46 0x00,
   ENTRY 0x47 0x00, ENTRY 0x48 0x9B, ENTRY 0x49 0xD2, ENTRY 0x4A 0x21,
   ENTRY 0x4B 0x43, ENTRY 0x4C 0x16, ENTRY 0x4D 0xC0, ENTRY 0x4E 0x0F,
   ENTRY 0x4F 0xF1, ENTRY 0x50 0x78, ENTRY 0x51 0x7A, ENTRY 0x52 0x34,
   ENTRY 0x53 0x99, ENTRY 0x54 0xA2, ENTRY 0x55 0x02, ENTRY 0x56 0x14,
   ENTRY 0x57 0xB8, ENTRY 0x58 0xDC, ENTRY 0x59 0xD4, ENTRY 0x5A 0xEF,
   ENTRY 0x5B 0xF7, ENTRY 0x5C 0xFB, ENTRY 0x5D 0xFD, ENTRY 0x5E 0x7E,
   ENTRY 0x5F 0xBF, ENTRY 0x60 0xEF, ENTRY 0x61 0xE6, ENTRY 0x62 0x76,
   ENTRY 0x63 0x73, ENTRY 0x64 0xBB, ENTRY 0x65 0xDD, ENTRY 0x66 0x6E,
   ENTRY 0x67 0x37, ENTRY 0x68 0x8C, ENTRY 0x69 0x08, ENTRY 0x6A 0x31,
   ENTRY 0x6B 0xB8, ENTRY 0x6C 0xB8, ENTRY 0x6D 0xB8, ENTRY 0x6E 0xB8,
   ENTRY 0x6F 0xB8, ENTRY 0x70 0x5C, ENTRY 0x71 0x2E, ENTRY 0x72 0x17,
   ENTRY 0x73 0x00, ENTRY 0x74 0x00, ENTRY 0x75 0x00, ENTRY 0x76 0x00,
   ENTRY 0x77 0x00, ENTRY 0x78 0x00, ENTRY 0x79 0x00, ENTRY 0x7A 0xDC,
   ENTRY 0x7B 0xDC, ENTRY 0x7C 0xDC, ENTRY 0x7D 0xDC, ENTRY 0x7E 0xDC,
   ENTRY 0x7F 0x6E, ENTRY 0x0B 0x00, ENTRY 0xB1 0x03, ENTRY 0x2C 0x2C,
   ENTRY 0xB1 0x00, ENTRY 0x89 0x03
  ]"

text \<open>A GPIO descriptor; \<^verbatim>\<open>NULL\<close> (an absent optional line) is \<open>None\<close>.\<close>

type_synonym gpio_desc = nat

text \<open>The two DCS opcodes that \<^verbatim>\<open>am4001280atzqw00h_wait\<close> sends with \<^verbatim>\<open>mipi_dsi_dcs_write\<close>.\<close>

datatype dcs_opcode = MIPI_DCS_ENTER_IDLE_MODE | MIPI_DCS_EXIT_IDLE_MODE

text \<open>
  Every call the driver makes into the kernel, with the arguments that matter.
  \<open>Usleep_range\<close> is in microseconds, \<open>Msleep\<close> in milliseconds.
\<close>

datatype hw_call =
    Regulator_bulk_enable
  | Regulator_bulk_disable
  | Gpiod_set_value_cansleep "gpio_desc option" bool
  | Usleep_range nat nat
  | Msleep nat
  | Ktime_get
  | Dcs_soft_reset
  | Dcs_enter_sleep_mode
  | Dcs_exit_sleep_mode
  | Dcs_set_display_off
  | Dcs_set_display_on
  | Dcs_set_display_brightness u16
  | Dcs_write dcs_opcode "u8 list"
  | Generic_write "u8 list"
  | Backlight_enable
  | Backlight_disable

text \<open>
  The hardware oracle: the value returned by the \<open>n\<close>-th call of a run (\<open>n\<close> counts
  every logged call), before the driver stores it in a variable of its own.
\<close>

type_synonym hw = "nat \<Rightarrow> hw_call \<Rightarrow> int"

text \<open>
  \<^verbatim>\<open>struct panel_driver_data\<close>, restricted to the fields the callbacks read or write:
  the optional reset line, the \<^verbatim>\<open>MIPI_DSI_MODE_LPM\<close> bit of \<^verbatim>\<open>dsi->mode_flags\<close>, the three
  runtime flags and \<^verbatim>\<open>bl_dev->props.brightness\<close>. \<open>hw_log\<close> is the record of the calls
  made so far, each with the value as the driver holds it (in \<^verbatim>\<open>int ret\<close>, or in the
  \<^verbatim>\<open>ktime_t\<close> variable for the clock): 0 stands for no value, with a \<^verbatim>\<open>void\<close> function and
  with \<^verbatim>\<open>backlight_enable\<close>, whose result the driver discards.
\<close>

record panel_driver_data =
  reset_pin :: "gpio_desc option"
  mode_lpm :: bool
  prepared :: bool
  enabled :: bool
  suspended :: bool
  brightness :: int
  hw_log :: "(hw_call \<times> int) list"

text \<open>
  The handle as \<^verbatim>\<open>am4001280atzqw00h_probe\<close> leaves it: \<^verbatim>\<open>devm_kzalloc\<close> clears the three
  flags, \<^verbatim>\<open>mode_flags\<close> is set without the LPM bit and the backlight starts at 200.
  The log starts empty: the calls of the probe itself are not part of it.
\<close>

definition probe :: "gpio_desc option \<Rightarrow> panel_driver_data" where
  "probe rp = \<lparr>reset_pin = rp, mode_lpm = False, prepared = False, enabled = False,
     suspended = False, brightness = 200, hw_log = []\<rparr>"

subsection \<open>Calls into the kernel\<close>

text \<open>
  Every callback keeps the result of a call in \<^verbatim>\<open>int ret\<close>, a signed 32-bit variable.
  \<^verbatim>\<open>mipi_dsi_generic_write\<close> and \<^verbatim>\<open>mipi_dsi_dcs_write\<close> return \<^verbatim>\<open>ssize_t\<close>, so the assignment
  narrows their result to 32 bits; for the functions that return \<^verbatim>\<open>int\<close> the same wrap
  reads the oracle's value as a value of that type. The tests \<^verbatim>\<open>ret < 0\<close> and the log see
  the stored value.
\<close>

definition wrap_s32 :: "int \<Rightarrow> int" where
  "wrap_s32 x = (x + 2 ^ 31) mod 2 ^ 32 - 2 ^ 31"

definition int_ret :: "hw \<Rightarrow> nat \<Rightarrow> hw_call \<Rightarrow> int" where
  "int_ret hw n c = wrap_s32 (hw n c)"

definition hw_ret :: "hw \<Rightarrow> hw_call \<Rightarrow> panel_driver_data \<Rightarrow> int \<times> panel_driver_data" where
  "hw_ret hw c s =
     (let ret = int_ret hw (length (hw_log s)) c in (ret, s\<lparr>hw_log := hw_log s @ [(c, ret)]\<rparr>))"

definition hw_void :: "hw_call \<Rightarrow> panel_driver_data \<Rightarrow> panel_driver_data" where
  "hw_void c s = s\<lparr>hw_log := hw_log s @ [(c, 0)]\<rparr>"

text \<open>The calls a callback has added to the log between two states.\<close>

definition issued :: "panel_driver_data \<Rightarrow> panel_driver_data \<Rightarrow> (hw_call \<times> int) list" where
  "issued s s' = drop (length (hw_log s)) (hw_log s')"

subsection \<open>Command upload\<close>

text \<open>
  \<^verbatim>\<open>push_cmd_list(dsi, cmd_set, count)\<close>: the array and its count are the list. Each entry
  goes out as one \<^verbatim>\<open>mipi_dsi_generic_write\<close> of the buffer \<^verbatim>\<open>{cmd, param}\<close>; the first
  negative return ends the loop and is returned.
\<close>

fun push_cmd_list :: "hw \<Rightarrow> cmd_set_entry list \<Rightarrow> panel_driver_data \<Rightarrow> int \<times> panel_driver_data" where
  "push_cmd_list hw [] s = (0, s)"
| "push_cmd_list hw (entry # cmd_set) s =
     (let (ret, s1) = hw_ret hw (Generic_write [cmd entry, param entry]) s in
      if ret < 0 then (ret, s1) else push_cmd_list hw cmd_set s1)"

subsection \<open>Panel callbacks\<close>

definition am4001280atzqw00h_prepare :: "hw \<Rightarrow> panel_driver_data \<Rightarrow> int \<times> panel_driver_data" where
  "am4001280atzqw00h_prepare hw s =
     (if prepared s then (1, s) else
      let (ret, s1) = hw_ret hw Regulator_bulk_enable s in
      if ret < 0 then (ret, s1) else
      let s2 = hw_void (Usleep_range 10000 12000) s1;
          s3 = (if reset_pin s2 \<noteq> None
                then hw_void (Msleep 50) (hw_void (Gpiod_set_value_cansleep (reset_pin s2) False) s2)
                else s2)
      in (0, s3))"

definition am4001280atzqw00h_unprepare :: "hw \<Rightarrow> panel_driver_data \<Rightarrow> int \<times> panel_driver_data" where
  "am4001280atzqw00h_unprepare hw s =
     (if prepared s then (1, s) else
      let s1 = (if reset_pin s \<noteq> None
                then hw_void (Gpiod_set_value_cansleep (reset_pin s) False)
                       (hw_void (Usleep_range 15000 17000)
                         (hw_void (Gpiod_set_value_cansleep (reset_pin s) True) s))
                else s);
          (ret, s2) = hw_ret hw Regulator_bulk_disable s1
      in if ret < 0 then (ret, s2) else (0, s2\<lparr>prepared := False\<rparr>))"

definition am4001280atzqw00h_suspend :: "hw \<Rightarrow> panel_driver_data \<Rightarrow> int \<times> panel_driver_data" where
  "am4001280atzqw00h_suspend hw s =
     (if suspended s then (1, s) else
      let (ret, s1) = hw_ret hw Dcs_enter_sleep_mode s in
      if ret < 0 then (ret, s1) else (0, s1))"

definition am4001280atzqw00h_resume :: "hw \<Rightarrow> panel_driver_data \<Rightarrow> int \<times> panel_driver_data" where
  "am4001280atzqw00h_resume hw s =
     (if \<not> suspended s then (1, s) else
      let (ret, s1) = hw_ret hw Dcs_exit_sleep_mode s in
      if ret < 0 then (ret, s1) else (0, s1))"

text \<open>The label \<^verbatim>\<open>fail:\<close> of \<^verbatim>\<open>am4001280atzqw00h_platform_enable\<close>.\<close>

definition enable_fail :: "int \<Rightarrow> panel_driver_data \<Rightarrow> int \<times> panel_driver_data" where
  "enable_fail ret s = (ret, hw_void (Gpiod_set_value_cansleep (reset_pin s) True) s)"

definition am4001280atzqw00h_platform_enable :: "hw \<Rightarrow> panel_driver_data \<Rightarrow> int \<times> panel_driver_data" where
  "am4001280atzqw00h_platform_enable hw s =
     (if enabled s then (1, s) else
      let (ret, s1) = hw_ret hw Dcs_soft_reset s in
      if ret < 0 then enable_fail ret s1 else
      let s2 = s1\<lparr>mode_lpm := True\<rparr>;
          (ret, s3) = am4001280atzqw00h_suspend hw s2 in
      if ret < 0 then enable_fail ret s3 else
      let (ret, s4) = hw_ret hw Dcs_set_display_off s3 in
      if ret < 0 then enable_fail ret s4 else
      let (ret, s5) = push_cmd_list hw mcs_am40001280 s4 in
      if ret < 0 then enable_fail ret s5 else
      let (ret, s6) = am4001280atzqw00h_resume hw s5 in
      if ret < 0 then enable_fail ret s6 else
      let s7 = hw_void (Usleep_range 5000 7000) s6;
          (ret, s8) = hw_ret hw Dcs_set_display_on s7 in
      if ret < 0 then enable_fail ret s8 else
      let s9 = hw_void Backlight_enable s8
      in (0, s9\<lparr>enabled := True\<rparr>))"

text \<open>\<^verbatim>\<open>am4001280atzqw00h_enable\<close> dispatches through \<^verbatim>\<open>pl_data->enable\<close>, which the match
  table binds to \<^verbatim>\<open>am4001280atzqw00h_platform_enable\<close>.\<close>

definition am4001280atzqw00h_enable :: "hw \<Rightarrow> panel_driver_data \<Rightarrow> int \<times> panel_driver_data" where
  "am4001280atzqw00h_enable hw s = am4001280atzqw00h_platform_enable hw s"

definition am4001280atzqw00h_disable :: "hw \<Rightarrow> panel_driver_data \<Rightarrow> int \<times> panel_driver_data" where
  "am4001280atzqw00h_disable hw s =
     (if enabled s then (1, s) else
      let (ret, s1) = hw_ret hw Backlight_disable s in
      if ret < 0 then (ret, s1) else
      let s2 = hw_void (Usleep_range 10000 12000) s1;
          s3 = s2\<lparr>mode_lpm := False\<rparr>;
          (ret, s4) = hw_ret hw Dcs_set_display_off s3 in
      if ret < 0 then (ret, s4) else
      let (ret, s5) = am4001280atzqw00h_suspend hw s4 in
      if ret < 0 then (ret, s5\<lparr>mode_lpm := True\<rparr>)
      else (0, s5\<lparr>mode_lpm := True, enabled := False\<rparr>))"

subsection \<open>Minimum dwell time\<close>

text \<open>
  \<^verbatim>\<open>ktime_t\<close> is a signed 64-bit count of nanoseconds, modelled as an \<open>int\<close> that every
  operation wraps into the type's range; \<^verbatim>\<open>msleep\<close> takes an \<^verbatim>\<open>unsigned int\<close>.
\<close>

definition wrap_s64 :: "int \<Rightarrow> int" where
  "wrap_s64 x = (x + 2 ^ 63) mod 2 ^ 64 - 2 ^ 63"

definition wrap_u32 :: "int \<Rightarrow> int" where
  "wrap_u32 x = x mod 2 ^ 32"

definition ktime_add :: "int \<Rightarrow> int \<Rightarrow> int" where
  "ktime_add a b = wrap_s64 (a + b)"

definition ktime_sub :: "int \<Rightarrow> int \<Rightarrow> int" where
  "ktime_sub a b = wrap_s64 (a - b)"

definition ms_to_ktime :: "int \<Rightarrow> int" where
  "ms_to_ktime ms = wrap_s64 (ms * 1000000)"

definition ktime_to_ms :: "int \<Rightarrow> int" where
  "ktime_to_ms kt = kt sdiv 1000000"

definition ktime_before :: "int \<Rightarrow> int \<Rightarrow> bool" where
  "ktime_before a b = (a < b)"

text \<open>The clock reading of the \<open>n\<close>-th call, as a \<^verbatim>\<open>ktime_t\<close>.\<close>

definition clock_read :: "hw \<Rightarrow> nat \<Rightarrow> int" where
  "clock_read hw n = wrap_s64 (hw n Ktime_get)"

definition ktime_get :: "hw \<Rightarrow> panel_driver_data \<Rightarrow> int \<times> panel_driver_data" where
  "ktime_get hw s =
     (let t = clock_read hw (length (hw_log s)) in (t, s\<lparr>hw_log := hw_log s @ [(Ktime_get, t)]\<rparr>))"

definition am4001280atzqw00h_wait :: "hw \<Rightarrow> int \<Rightarrow> u32 \<Rightarrow> panel_driver_data \<Rightarrow> int \<times> panel_driver_data" where
  "am4001280atzqw00h_wait hw start_ktime min_ms s =
     (if min_ms = 0 then (1, s) else
      let min_ktime = ktime_add start_ktime (ms_to_ktime (uint min_ms));
          (now_ktime, s1) = ktime_get hw s;
          (ret, s2) = hw_ret hw (Dcs_write MIPI_DCS_ENTER_IDLE_MODE []) s1 in
      if ret < 0 then (ret, s2) else
      let s3 = (if ktime_before now_ktime min_ktime
                then hw_void (Msleep (nat (wrap_u32 (ktime_to_ms (ktime_sub min_ktime now_ktime) + 1)))) s2
                else s2);
          (ret, s4) = hw_ret hw (Dcs_write MIPI_DCS_EXIT_IDLE_MODE []) s3 in
      if ret < 0 then (ret, s4) else (0, s4))"

subsection \<open>Backlight\<close>

text \<open>\<^verbatim>\<open>bl_dev->props.brightness\<close> is an \<^verbatim>\<open>int\<close>; the DCS helper takes a \<^verbatim>\<open>u16\<close>.\<close>

definition am4001280atzqw00h_backlight_update_status :: "hw \<Rightarrow> panel_driver_data \<Rightarrow> int \<times> panel_driver_data" where
  "am4001280atzqw00h_backlight_update_status hw s =
     (if \<not> prepared s then (0, s) else
      let (ret, s1) = hw_ret hw (Dcs_set_display_brightness (word_of_int (brightness s))) s in
      if ret < 0 then (ret, s1) else (0, s1))"

subsection \<open>Sequences of lifecycle calls\<close>

datatype lifecycle_op = Prepare | Enable | Disable | Unprepare | Suspend | Resume

fun lifecycle_call :: "hw \<Rightarrow> lifecycle_op \<Rightarrow> panel_driver_data \<Rightarrow> int \<times> panel_driver_data" where
  "lifecycle_call hw Prepare s = am4001280atzqw00h_prepare hw s"
| "lifecycle_call hw Enable s = am4001280atzqw00h_enable hw s"
| "lifecycle_call hw Disable s = am4001280atzqw00h_disable hw s"
| "lifecycle_call hw Unprepare s = am4001280atzqw00h_unprepare hw s"
| "lifecycle_call hw Suspend s = am4001280atzqw00h_suspend hw s"
| "lifecycle_call hw Resume s = am4001280atzqw00h_resume hw s"

text \<open>The handle after a sequence of calls, whatever each of them returned.\<close>

fun lifecycle_run :: "hw \<Rightarrow> lifecycle_op list \<Rightarrow> panel_driver_data \<Rightarrow> panel_driver_data" where
  "lifecycle_run hw [] s = s"
| "lifecycle_run hw (op # ops) s = lifecycle_run hw ops (snd (lifecycle_call hw op s))"

subsection \<open>Hardware used in the examples\<close>

text \<open>Hardware on which every call returns 0.\<close>

definition hw_ok :: hw where
  "hw_ok n c = 0"

text \<open>Hardware whose \<open>k\<close>-th call returns \<^verbatim>\<open>-EIO\<close> (-5) and every other call 0.\<close>

definition hw_fail_at :: "nat \<Rightarrow> hw" where
  "hw_fail_at k n c = (if n = k then - 5 else 0)"

text \<open>
  Hardware whose \<open>k\<close>-th call returns 4294967291, a positive \<^verbatim>\<open>ssize_t\<close> that \<^verbatim>\<open>int ret\<close>
  holds as -5, and every other call 0.
\<close>

definition hw_wide_at :: "nat \<Rightarrow> hw" where
  "hw_wide_at k n c = (if n = k then 4294967291 else 0)"

text \<open>Hardware whose clock reads 10 ms (in nanoseconds) and whose other calls return 0.\<close>

definition hw_clock_10ms :: hw where
  "hw_clock_10ms n c = (if c = Ktime_get then 10000000 else 0)"

subsection \<open>Ranges of the time arithmetic\<close>

definition ktime_in_range :: "int \<Rightarrow> bool" where
  "ktime_in_range t = (- (2 ^ 63) \<le> t \<and> t < 2 ^ 63)"

text \<open>
  The conditions under which \<^verbatim>\<open>am4001280atzqw00h_wait\<close> computes without wrap-around, for
  a clock reading \<open>now\<close>: the deadline \<open>start + min_ms\<close> and its distance from the reading
  fit \<^verbatim>\<open>ktime_t\<close>, and the number of milliseconds to sleep fits \<^verbatim>\<open>unsigned int\<close>.
\<close>

definition wait_no_overflow :: "int \<Rightarrow> u32 \<Rightarrow> int \<Rightarrow> bool" where
  "wait_no_overflow start_ktime min_ms now =
     (ktime_in_range (start_ktime + uint min_ms * 1000000) \<and>
      ktime_in_range (start_ktime + uint min_ms * 1000000 - now) \<and>
      (start_ktime + uint min_ms * 1000000 - now) div 1000000 + 1 < 2 ^ 32)"

section \<open>Properties\<close>

subsection \<open>Auxiliary facts\<close>

lemma hw_ret_eq:
  "hw_ret hw c s = (int_ret hw (length (hw_log s)) c, s\<lparr>hw_log := hw_log s @ [(c, int_ret hw (length (hw_log s)) c)]\<rparr>)"
  by (simp add: hw_ret_def Let_def)

lemma int_ret_hw_ok: "int_ret hw_ok n c = 0"
  by (simp add: int_ret_def hw_ok_def wrap_s32_def)

lemma int_ret_hw_fail_at: "int_ret (hw_fail_at k) n c = (if n = k then - 5 else 0)"
  by (simp add: int_ret_def hw_fail_at_def wrap_s32_def)

lemma int_ret_hw_wide_at: "int_ret (hw_wide_at k) n c = (if n = k then - 5 else 0)"
  by (simp add: int_ret_def hw_wide_at_def wrap_s32_def)

lemma push_cmd_list_all_ok:
  "(\<forall>i<length es. 0 \<le> int_ret hw (length (hw_log s) + i) (Generic_write [cmd (es ! i), param (es ! i)])) \<Longrightarrow>
   push_cmd_list hw es s =
     (0, s\<lparr>hw_log := hw_log s @
          map (\<lambda>i. (Generic_write [cmd (es ! i), param (es ! i)],
                     int_ret hw (length (hw_log s) + i) (Generic_write [cmd (es ! i), param (es ! i)])))
              [0..<length es]\<rparr>)"
proof (induction es arbitrary: s)
  case Nil
  then show ?case by simp
next
  case (Cons e es)
  let ?s1 = "s\<lparr>hw_log := hw_log s @ [(Generic_write [cmd e, param e], int_ret hw (length (hw_log s)) (Generic_write [cmd e, param e]))]\<rparr>"
  from Cons.prems have h0: "0 \<le> int_ret hw (length (hw_log s)) (Generic_write [cmd e, param e])"
    by (metis add.right_neutral length_greater_0_conv list.distinct(1) nth_Cons_0)
  from Cons.prems have hs: "\<forall>i<length es. 0 \<le> int_ret hw (length (hw_log ?s1) + i) (Generic_write [cmd (es ! i), param (es ! i)])"
    by fastforce
  show ?case
    using Cons.IH[OF hs] h0
    by (simp add: hw_ret_eq upt_conv_Cons map_Suc_upt[symmetric] del: upt_Suc)
qed

lemma push_cmd_list_first_fail:
  "k < length es \<Longrightarrow>
   (\<forall>i<k. 0 \<le> int_ret hw (length (hw_log s) + i) (Generic_write [cmd (es ! i), param (es ! i)])) \<Longrightarrow>
   int_ret hw (length (hw_log s) + k) (Generic_write [cmd (es ! k), param (es ! k)]) < 0 \<Longrightarrow>
   push_cmd_list hw es s =
     (int_ret hw (length (hw_log s) + k) (Generic_write [cmd (es ! k), param (es ! k)]),
      s\<lparr>hw_log := hw_log s @
          map (\<lambda>i. (Generic_write [cmd (es ! i), param (es ! i)],
                     int_ret hw (length (hw_log s) + i) (Generic_write [cmd (es ! i), param (es ! i)])))
              [0..<Suc k]\<rparr>)"
proof (induction es arbitrary: s k)
  case Nil
  then show ?case by simp
next
  case (Cons e es)
  show ?case
  proof (cases k)
    case 0
    with Cons.prems show ?thesis by (simp add: hw_ret_eq)
  next
    case (Suc j)
    let ?s1 = "s\<lparr>hw_log := hw_log s @ [(Generic_write [cmd e, param e], int_ret hw (length (hw_log s)) (Generic_write [cmd e, param e]))]\<rparr>"
    from Cons.prems Suc have h0: "0 \<le> int_ret hw (length (hw_log s)) (Generic_write [cmd e, param e])"
      by (metis add.right_neutral nth_Cons_0 zero_less_Suc)
    from Cons.prems Suc have j: "j < length es" by simp
    from Cons.prems Suc have hs: "\<forall>i<j. 0 \<le> int_ret hw (length (hw_log ?s1) + i) (Generic_write [cmd (es ! i), param (es ! i)])"
      by fastforce
    from Cons.prems Suc have hk: "int_ret hw (length (hw_log ?s1) + j) (Generic_write [cmd (es ! j), param (es ! j)]) < 0"
      by simp
    show ?thesis
      using Cons.IH[OF j hs hk] h0 Suc
      by (simp add: hw_ret_eq upt_conv_Cons map_Suc_upt[symmetric] del: upt_Suc)
  qed
qed

lemma push_cmd_list_shape:
  "push_cmd_list hw es s = (r, s') \<Longrightarrow>
     \<exists>seg. s' = s\<lparr>hw_log := hw_log s @ seg\<rparr> \<and> list_all (\<lambda>e. 0 \<le> snd e) (butlast seg) \<and>
        (if r < 0 then seg \<noteq> [] \<and> snd (last seg) = r else r = 0 \<and> list_all (\<lambda>e. 0 \<le> snd e) seg)"
proof (induction es arbitrary: s)
  case Nil
  then show ?case by (auto intro: exI[of _ "[]"])
next
  case (Cons e es)
  let ?c = "Generic_write [cmd e, param e]"
  let ?r = "int_ret hw (length (hw_log s)) ?c"
  let ?s1 = "s\<lparr>hw_log := hw_log s @ [(?c, ?r)]\<rparr>"
  show ?case
  proof (cases "?r < 0")
    case True
    with Cons.prems have "r = ?r" "s' = ?s1" by (auto simp: hw_ret_eq)
    with True show ?thesis by (intro exI[of _ "[(?c, ?r)]"]) auto
  next
    case False
    with Cons.prems have "push_cmd_list hw es ?s1 = (r, s')" by (simp add: hw_ret_eq)
    from Cons.IH[OF this] obtain seg where
      seg: "s' = ?s1\<lparr>hw_log := hw_log ?s1 @ seg\<rparr>" "list_all (\<lambda>e. 0 \<le> snd e) (butlast seg)"
        "if r < 0 then seg \<noteq> [] \<and> snd (last seg) = r else r = 0 \<and> list_all (\<lambda>e. 0 \<le> snd e) seg"
      by blast
    show ?thesis
      using seg False
      by (intro exI[of _ "(?c, ?r) # seg"]) (auto split: if_splits)
  qed
qed


lemma push_cmd_list_hw_ok:
  "push_cmd_list hw_ok es s =
     (0, s\<lparr>hw_log := hw_log s @ map (\<lambda>e. (Generic_write [cmd e, param e], 0)) es\<rparr>)"
  by (induction es arbitrary: s) (simp_all add: hw_ret_eq int_ret_hw_ok)

lemma not_ex_neg: "list_all (\<lambda>e. 0 \<le> snd e) xs \<Longrightarrow> \<not> list_ex (\<lambda>e. snd e < (0::int)) xs"
  by (auto simp: list_all_iff list_ex_iff)

lemma wrap_s64_id: "ktime_in_range x \<Longrightarrow> wrap_s64 x = x"
  by (simp add: wrap_s64_def ktime_in_range_def)

lemma wrap_s64_in_range: "ktime_in_range (wrap_s64 x)"
  by (simp add: wrap_s64_def ktime_in_range_def)

lemma wrap_u32_id: "0 \<le> x \<Longrightarrow> x < 2 ^ 32 \<Longrightarrow> wrap_u32 x = x"
  by (simp add: wrap_u32_def)

lemma ms_in_range: "0 \<le> x \<Longrightarrow> x < 2 ^ 32 \<Longrightarrow> ktime_in_range (x * 1000000)"
  by (simp add: ktime_in_range_def)

lemma ms_to_ktime_uint: "ms_to_ktime (uint (m::u32)) = uint m * 1000000"
proof -
  have "uint m < 2 ^ 32" using uint_lt2p[of m] by simp
  then have "ktime_in_range (uint m * 1000000)" by (intro ms_in_range) simp_all
  then show ?thesis by (simp add: ms_to_ktime_def wrap_s64_id)
qed

lemma ktime_to_ms_pos: "0 < k \<Longrightarrow> ktime_to_ms k = k div 1000000"
  by (simp add: ktime_to_ms_def signed_divide_int_def)

lemma msleep_arg:
  assumes ok: "wait_no_overflow start min_ms now" and lt: "now < start + uint min_ms * 1000000"
  shows "wrap_u32 (ktime_to_ms (ktime_sub (ktime_add start (ms_to_ktime (uint min_ms))) now) + 1)
           = (start + uint min_ms * 1000000 - now) div 1000000 + 1"
proof -
  let ?d = "start + uint min_ms * 1000000"
  from ok have r: "ktime_in_range ?d" "ktime_in_range (?d - now)"
    "(?d - now) div 1000000 + 1 < 2 ^ 32"
    by (simp_all add: wait_no_overflow_def)
  have sub: "ktime_sub (ktime_add start (ms_to_ktime (uint min_ms))) now = ?d - now"
    using r by (simp add: ktime_sub_def ktime_add_def ms_to_ktime_uint wrap_s64_id)
  have pos: "0 < ?d - now" using lt by simp
  then have nn: "0 \<le> (?d - now) div 1000000 + 1" by simp
  show ?thesis using r(3) nn by (simp add: sub ktime_to_ms_pos[OF pos] wrap_u32_id)
qed

lemma before_iff:
  assumes ok: "ktime_in_range (start + uint (min_ms::u32) * 1000000)"
  shows "ktime_before now (ktime_add start (ms_to_ktime (uint min_ms)))
           = (now < start + uint min_ms * 1000000)"
  using ok by (simp add: ktime_before_def ktime_add_def ms_to_ktime_uint wrap_s64_id)

lemma ktime_get_eq:
  "ktime_get hw s = (clock_read hw (length (hw_log s)),
     s\<lparr>hw_log := hw_log s @ [(Ktime_get, clock_read hw (length (hw_log s)))]\<rparr>)"
  by (simp add: ktime_get_def Let_def)

lemma wait_calls:
  assumes run: "am4001280atzqw00h_wait hw start min_ms s = (ret, s')"
      and nz: "min_ms \<noteq> 0"
      and enter: "0 \<le> int_ret hw (Suc (length (hw_log s))) (Dcs_write MIPI_DCS_ENTER_IDLE_MODE [])"
  shows "map fst (issued s s') =
           [Ktime_get, Dcs_write MIPI_DCS_ENTER_IDLE_MODE []]
           @ (if ktime_before (clock_read hw (length (hw_log s)))
                   (ktime_add start (ms_to_ktime (uint min_ms)))
              then [Msleep (nat (wrap_u32 (ktime_to_ms (ktime_sub
                       (ktime_add start (ms_to_ktime (uint min_ms)))
                       (clock_read hw (length (hw_log s)))) + 1)))]
              else [])
           @ [Dcs_write MIPI_DCS_EXIT_IDLE_MODE []]
         \<and> ret = min 0 (snd (last (issued s s')))"
  using run nz enter
  by (auto simp: am4001280atzqw00h_wait_def ktime_get_eq hw_ret_eq hw_void_def issued_def Let_def
      split: if_splits)

lemmas cb_defs = am4001280atzqw00h_prepare_def am4001280atzqw00h_unprepare_def
  am4001280atzqw00h_suspend_def am4001280atzqw00h_resume_def am4001280atzqw00h_enable_def
  am4001280atzqw00h_platform_enable_def am4001280atzqw00h_disable_def enable_fail_def
  am4001280atzqw00h_backlight_update_status_def hw_void_def hw_ret_eq probe_def Let_def

lemma enable_failure_shape:
  assumes run: "am4001280atzqw00h_platform_enable hw s = (ret, s')"
      and failed: "list_ex (\<lambda>e. snd e < 0) (issued s s')"
  shows "ret < 0
       \<and> 2 \<le> length (issued s s')
       \<and> last (issued s s') = (Gpiod_set_value_cansleep (reset_pin s) True, 0)
       \<and> snd (last (butlast (issued s s'))) = ret
       \<and> list_all (\<lambda>e. 0 \<le> snd e) (butlast (butlast (issued s s')))
       \<and> \<not> enabled s \<and> \<not> enabled s' \<and> prepared s' = prepared s \<and> suspended s' = suspended s"
  using run failed
  unfolding am4001280atzqw00h_platform_enable_def am4001280atzqw00h_suspend_def
    am4001280atzqw00h_resume_def enable_fail_def hw_void_def issued_def
  apply (simp add: hw_ret_eq Let_def split: if_splits prod.splits)
         apply (auto dest!: push_cmd_list_shape simp: not_ex_neg butlast_append split: if_splits)
  done

subsection \<open>Unprepare\<close>

text \<open>
  Claim C1: Unprepare succeeds only in state Prepared; in any other state it fails
  with the named error and changes nothing; when the precondition holds it bounces the
  reset line, disables the supplies and moves to Unprepared.

  The source tests the flag the other way round. On a handle whose \<open>prepared\<close> flag is set,
  \<^verbatim>\<open>am4001280atzqw00h_unprepare\<close> returns 1 and does nothing; on a handle whose flag is clear
  (the one \<open>probe\<close> creates) it runs the whole power-down sequence and returns 0. The
  message logged on the error path reads "despite already not being prepared".
\<close>

theorem unprepare_inverted_precondition:
  "am4001280atzqw00h_unprepare hw_ok ((probe (Some 0))\<lparr>prepared := True\<rparr>)
     = (1, (probe (Some 0))\<lparr>prepared := True\<rparr>)
   \<and> am4001280atzqw00h_unprepare hw_ok (probe (Some 0))
     = (0, (probe (Some 0))\<lparr>hw_log :=
          [(Gpiod_set_value_cansleep (Some 0) True, 0), (Usleep_range 15000 17000, 0),
           (Gpiod_set_value_cansleep (Some 0) False, 0), (Regulator_bulk_disable, 0)]\<rparr>)"
  by (simp add: cb_defs int_ret_hw_ok)

subsection \<open>Prepare\<close>

text \<open>
  Claim C2: Prepare called in state Unprepared with a successful supply enable returns
  success and leaves the panel Prepared; called while prepared it fails with
  AlreadyPrepared; a failing supply enable returns PowerError and leaves the state
  unchanged.

  On the handle that \<open>probe\<close> creates, with every hardware call succeeding,
  \<^verbatim>\<open>am4001280atzqw00h_prepare\<close> enables the supplies, releases reset and returns 0, and the
  \<open>prepared\<close> flag is still clear: whatever the hardware does, the function leaves
  the flag as it found it.
\<close>

theorem prepare_leaves_flag_clear:
  "am4001280atzqw00h_prepare hw_ok (probe (Some 0))
     = (0, (probe (Some 0))\<lparr>hw_log :=
          [(Regulator_bulk_enable, 0), (Usleep_range 10000 12000, 0),
           (Gpiod_set_value_cansleep (Some 0) False, 0), (Msleep 50, 0)]\<rparr>)
   \<and> \<not> prepared (snd (am4001280atzqw00h_prepare hw_ok (probe (Some 0))))
   \<and> prepared (snd (am4001280atzqw00h_prepare hw s)) = prepared s"
  by (simp add: cb_defs int_ret_hw_ok)

subsection \<open>Enabled implies prepared\<close>

text \<open>
  Claim C3: after every sequence of lifecycle operations from the Unprepared state, a
  set \<open>enabled\<close> flag comes with a set \<open>prepared\<close> flag.

  After Prepare and then Enable on working hardware both calls have returned 0, the
  \<open>enabled\<close> flag is set and the \<open>prepared\<close> flag is clear.
\<close>

theorem enabled_without_prepared:
  "fst (lifecycle_call hw_ok Prepare (probe (Some 0))) = 0
   \<and> fst (lifecycle_call hw_ok Enable (lifecycle_run hw_ok [Prepare] (probe (Some 0)))) = 0
   \<and> enabled (lifecycle_run hw_ok [Prepare, Enable] (probe (Some 0)))
   \<and> \<not> prepared (lifecycle_run hw_ok [Prepare, Enable] (probe (Some 0)))"
  by (simp add: cb_defs push_cmd_list_hw_ok) (simp add: int_ret_hw_ok)

subsection \<open>Disable\<close>

text \<open>
  Claim C4: Disable in state Enabled passes its precondition check and tears the panel
  down; Disable in any other state fails with NotEnabled and changes nothing.

  The source tests the flag the other way round. On the enabled handle reached by Prepare
  and Enable, \<^verbatim>\<open>am4001280atzqw00h_disable\<close> returns 1 and does nothing; on the handle that
  \<open>probe\<close> creates, which is not enabled, it runs the teardown and returns 0. The message
  logged on the error path reads "despite not being enabled".
\<close>

theorem disable_inverted_precondition:
  "enabled (lifecycle_run hw_ok [Prepare, Enable] (probe (Some 0)))
   \<and> am4001280atzqw00h_disable hw_ok (lifecycle_run hw_ok [Prepare, Enable] (probe (Some 0)))
     = (1, lifecycle_run hw_ok [Prepare, Enable] (probe (Some 0)))
   \<and> am4001280atzqw00h_disable hw_ok (probe (Some 0))
     = (0, (probe (Some 0))\<lparr>mode_lpm := True, hw_log :=
          [(Backlight_disable, 0), (Usleep_range 10000 12000, 0),
           (Dcs_set_display_off, 0), (Dcs_enter_sleep_mode, 0)]\<rparr>)"
  by (simp add: cb_defs push_cmd_list_hw_ok) (simp add: int_ret_hw_ok)

subsection \<open>Suspend and resume\<close>

text \<open>
  Claim C5: a successful Suspend sets the \<open>suspended\<close> flag and a successful Resume
  clears it; Suspend while asleep fails with AlreadySuspended and Resume while awake
  fails with NotSuspended.

  \<^verbatim>\<open>am4001280atzqw00h_suspend\<close> on working hardware sends the enter-sleep command, returns 0
  and leaves \<open>suspended\<close> clear; the Resume that follows therefore returns 1 without
  sending the exit-sleep command. Neither function ever changes the flag.
\<close>

theorem suspend_flag_not_recorded:
  "am4001280atzqw00h_suspend hw_ok (probe (Some 0))
     = (0, (probe (Some 0))\<lparr>hw_log := [(Dcs_enter_sleep_mode, 0)]\<rparr>)
   \<and> \<not> suspended (snd (am4001280atzqw00h_suspend hw_ok (probe (Some 0))))
   \<and> am4001280atzqw00h_resume hw_ok (snd (am4001280atzqw00h_suspend hw_ok (probe (Some 0))))
     = (1, snd (am4001280atzqw00h_suspend hw_ok (probe (Some 0))))
   \<and> suspended (snd (am4001280atzqw00h_suspend hw s)) = suspended s
   \<and> suspended (snd (am4001280atzqw00h_resume hw s)) = suspended s"
  by (simp add: cb_defs int_ret_hw_ok)

subsection \<open>Enable\<close>

text \<open>
  Claim C6: a successful Enable performs, in order: soft reset, switch to low-power
  mode, enter sleep, display off, the whole command set, exit sleep, settle delay,
  display on, backlight enable; in particular exit-sleep goes out between the command
  set and display-on.

  On working hardware \<^verbatim>\<open>am4001280atzqw00h_platform_enable\<close> returns 0 after the calls below:
  the command set is followed directly by the settle delay, and no exit-sleep command
  is sent at all, because the \<open>suspended\<close> flag that \<^verbatim>\<open>am4001280atzqw00h_resume\<close> tests was
  not set by the preceding suspend.
\<close>

theorem enable_never_exits_sleep:
  "am4001280atzqw00h_platform_enable hw_ok (probe (Some 0))
     = (0, (probe (Some 0))\<lparr>mode_lpm := True, enabled := True, hw_log :=
          [(Dcs_soft_reset, 0), (Dcs_enter_sleep_mode, 0), (Dcs_set_display_off, 0)]
          @ map (\<lambda>e. (Generic_write [cmd e, param e], 0)) mcs_am40001280
          @ [(Usleep_range 5000 7000, 0), (Dcs_set_display_on, 0), (Backlight_enable, 0)]\<rparr>)
   \<and> Dcs_exit_sleep_mode \<notin> fst ` set (hw_log (snd (am4001280atzqw00h_platform_enable hw_ok (probe (Some 0)))))"
  by (simp add: cb_defs push_cmd_list_hw_ok) (auto simp add: int_ret_hw_ok)

text \<open>
  Claim C7: if a bus command issued during Enable fails (soft reset, sleep entry,
  display off, a command-set entry, sleep exit or display on), Enable asserts the reset
  line, returns that command's error, and the \<open>enabled\<close> flag stays clear with the
  lifecycle state as it was.

  Whenever \<^verbatim>\<open>int ret\<close> has held a negative value for a call logged during
  \<^verbatim>\<open>am4001280atzqw00h_platform_enable\<close>, the calls of the run are: calls that succeeded, then the failing call, whose
  value is the value returned to the caller, then the write of 1 to the reset line,
  and nothing more; the three flags are unchanged and \<open>enabled\<close> is clear.
\<close>

theorem enable_failure_rollback:
  assumes run: "am4001280atzqw00h_platform_enable hw s = (ret, s')"
      and failed: "list_ex (\<lambda>e. snd e < 0) (issued s s')"
  shows "\<exists>before c. issued s s' = before @ [(c, ret), (Gpiod_set_value_cansleep (reset_pin s) True, 0)]
           \<and> list_all (\<lambda>e. 0 \<le> snd e) before \<and> ret < 0
           \<and> \<not> enabled s' \<and> prepared s' = prepared s \<and> suspended s' = suspended s"
proof -
  let ?l = "issued s s'"
  note sh = enable_failure_shape[OF run failed]
  from sh have len: "2 \<le> length ?l" by simp
  have ne: "?l \<noteq> []" using len by auto
  have ne2: "butlast ?l \<noteq> []"
  proof
    assume "butlast ?l = []"
    then have "length (butlast ?l) = 0" by simp
    with len show False by simp
  qed
  have "?l = butlast ?l @ [last ?l]" using ne by simp
  also have "butlast ?l = butlast (butlast ?l) @ [last (butlast ?l)]" using ne2 by simp
  finally have split: "?l = butlast (butlast ?l) @ [last (butlast ?l), last ?l]" by simp
  have lb: "last (butlast ?l) = (fst (last (butlast ?l)), ret)"
    using sh by (simp add: prod_eq_iff)
  have "?l = butlast (butlast ?l) @ [(fst (last (butlast ?l)), ret), (Gpiod_set_value_cansleep (reset_pin s) True, 0)]"
    using split lb sh by metis
  with sh show ?thesis by blast
qed

theorem enable_failure_rollback_witness:
  "am4001280atzqw00h_platform_enable (hw_fail_at 2) (probe (Some 0))
     = (- 5, (probe (Some 0))\<lparr>mode_lpm := True, hw_log :=
          [(Dcs_soft_reset, 0), (Dcs_enter_sleep_mode, 0), (Dcs_set_display_off, - 5),
           (Gpiod_set_value_cansleep (Some 0) True, 0)]\<rparr>)
   \<and> list_ex (\<lambda>e. snd e < 0) (issued (probe (Some 0))
         (snd (am4001280atzqw00h_platform_enable (hw_fail_at 2) (probe (Some 0)))))
   \<and> \<not> enabled (snd (am4001280atzqw00h_platform_enable (hw_fail_at 2) (probe (Some 0))))"
proof -
  let ?s' = "(probe (Some 0))\<lparr>mode_lpm := True, hw_log :=
          [(Dcs_soft_reset, 0), (Dcs_enter_sleep_mode, 0), (Dcs_set_display_off, - 5),
           (Gpiod_set_value_cansleep (Some 0) True, 0)]\<rparr>"
  have run: "am4001280atzqw00h_platform_enable (hw_fail_at 2) (probe (Some 0)) = (- 5, ?s')"
    by (simp add: cb_defs int_ret_hw_fail_at)
  have failed: "list_ex (\<lambda>e. snd e < 0) (issued (probe (Some 0)) ?s')"
    by (simp add: issued_def probe_def)
  from enable_failure_rollback[OF run failed] have "\<not> enabled ?s'" by blast
  with run failed show ?thesis by simp
qed

subsection \<open>Command upload\<close>

text \<open>
  Claim C8: for a bus whose writes succeed at indices \<open>0..k-1\<close> and fail first at
  index \<open>k\<close>, \<^verbatim>\<open>push_cmd_list\<close> writes entries \<open>0..k-1\<close> in order, each as one two-byte
  write, attempts nothing after index \<open>k\<close> and returns a failure tagged with \<open>k\<close>; when
  every write succeeds it returns success after writing all entries in order.

  The returned value is the error code of the failing write and nothing else: two runs
  that fail at index 0 and at index 1 with the same code return the same value.
\<close>

theorem push_cmd_list_result_has_no_index:
  "fst (push_cmd_list (hw_fail_at 0) [ENTRY 0xB0 0x5A, ENTRY 0xB1 0x00] (probe None)) = - 5
   \<and> fst (push_cmd_list (hw_fail_at 1) [ENTRY 0xB0 0x5A, ENTRY 0xB1 0x00] (probe None)) = - 5"
  by (simp add: hw_ret_eq int_ret_hw_fail_at probe_def)

text \<open>
  Claim C8, amended: entries \<open>0..k\<close> are written in order, each as one two-byte write
  (entry \<open>k\<close> being the failing attempt), nothing is attempted after index \<open>k\<close>, and the
  value returned is the negative return code of the write at index \<open>k\<close>; when every
  write succeeds, all entries are written in order and 0 is returned. A write has
  failed when the value \<^verbatim>\<open>int ret\<close> holds for it, \<open>int_ret\<close>, is negative.
\<close>

theorem push_cmd_list_replay:
  "(k < length es
      \<and> (\<forall>i<k. 0 \<le> int_ret hw (length (hw_log s) + i) (Generic_write [cmd (es ! i), param (es ! i)]))
      \<and> int_ret hw (length (hw_log s) + k) (Generic_write [cmd (es ! k), param (es ! k)]) < 0
    \<longrightarrow> push_cmd_list hw es s =
        (int_ret hw (length (hw_log s) + k) (Generic_write [cmd (es ! k), param (es ! k)]),
         s\<lparr>hw_log := hw_log s @
            map (\<lambda>i. (Generic_write [cmd (es ! i), param (es ! i)],
                       int_ret hw (length (hw_log s) + i) (Generic_write [cmd (es ! i), param (es ! i)])))
                [0..<Suc k]\<rparr>))
   \<and> ((\<forall>i<length es. 0 \<le> int_ret hw (length (hw_log s) + i) (Generic_write [cmd (es ! i), param (es ! i)]))
    \<longrightarrow> push_cmd_list hw es s =
        (0, s\<lparr>hw_log := hw_log s @
            map (\<lambda>i. (Generic_write [cmd (es ! i), param (es ! i)],
                       int_ret hw (length (hw_log s) + i) (Generic_write [cmd (es ! i), param (es ! i)])))
                [0..<length es]\<rparr>))"
  using push_cmd_list_first_fail[of k es hw s] push_cmd_list_all_ok[of es hw s] by blast

theorem push_cmd_list_replay_witness:
  "push_cmd_list (hw_fail_at 1) [ENTRY 0xB0 0x5A, ENTRY 0xB1 0x00, ENTRY 0x89 0x01] (probe None)
     = (- 5, (probe None)\<lparr>hw_log :=
          [(Generic_write [0xB0, 0x5A], 0), (Generic_write [0xB1, 0x00], - 5)]\<rparr>)
   \<and> push_cmd_list (hw_wide_at 0) [ENTRY 0xB0 0x5A, ENTRY 0xB1 0x00, ENTRY 0x89 0x01] (probe None)
     = (- 5, (probe None)\<lparr>hw_log := [(Generic_write [0xB0, 0x5A], - 5)]\<rparr>)
   \<and> push_cmd_list hw_ok [ENTRY 0xB0 0x5A, ENTRY 0xB1 0x00, ENTRY 0x89 0x01] (probe None)
     = (0, (probe None)\<lparr>hw_log :=
          [(Generic_write [0xB0, 0x5A], 0), (Generic_write [0xB1, 0x00], 0),
           (Generic_write [0x89, 0x01], 0)]\<rparr>)"
  using push_cmd_list_replay[of 1 "[ENTRY 0xB0 0x5A, ENTRY 0xB1 0x00, ENTRY 0x89 0x01]" "hw_fail_at 1" "probe None"]
        push_cmd_list_replay[of 0 "[ENTRY 0xB0 0x5A, ENTRY 0xB1 0x00, ENTRY 0x89 0x01]" "hw_wide_at 0" "probe None"]
        push_cmd_list_replay[of 0 "[ENTRY 0xB0 0x5A, ENTRY 0xB1 0x00, ENTRY 0x89 0x01]" hw_ok "probe None"]
  by (simp add: int_ret_hw_fail_at int_ret_hw_wide_at int_ret_hw_ok probe_def upt_rec)

subsection \<open>Backlight\<close>

text \<open>
  Claim C9: SetBrightness on a panel that is not prepared succeeds without touching
  the bus; after a successful Prepare and a successful Enable it issues exactly one
  brightness write carrying the requested level.

  After Prepare and Enable on working hardware, \<^verbatim>\<open>am4001280atzqw00h_backlight_update_status\<close>
  with brightness 128 returns 0 and adds no call to the log: \<open>prepared\<close> is still clear,
  so the update takes the not-prepared exit.
\<close>

theorem brightness_write_skipped_after_enable:
  "am4001280atzqw00h_backlight_update_status hw_ok
      ((lifecycle_run hw_ok [Prepare, Enable] (probe (Some 0)))\<lparr>brightness := 128\<rparr>)
     = (0, (lifecycle_run hw_ok [Prepare, Enable] (probe (Some 0)))\<lparr>brightness := 128\<rparr>)"
  by (simp add: cb_defs push_cmd_list_hw_ok)

subsection \<open>Minimum dwell time in idle mode\<close>

text \<open>
  Claim C10: WaitAtLeast fails with InvalidArgument when \<open>min_ms\<close> is 0, without
  touching the bus; otherwise it sends enter-idle, blocks only if the deadline
  \<open>start + min_ms\<close> has not passed (for at least the remaining time) and then sends
  exit-idle, so enter-idle precedes the wait and exit-idle follows it.

  With \<open>min_ms = 4294967295\<close>, reference time 0 and a clock that reads 0, the deadline is
  4294967295 ms away. The source adds 1 to that count and passes the sum to
  \<^verbatim>\<open>msleep\<close>, whose parameter is an \<^verbatim>\<open>unsigned int\<close>: the call made is \<^verbatim>\<open>msleep(0)\<close>.
\<close>

theorem wait_sleep_truncated:
  "am4001280atzqw00h_wait hw_ok 0 4294967295 (probe None)
     = (0, (probe None)\<lparr>hw_log :=
          [(Ktime_get, 0), (Dcs_write MIPI_DCS_ENTER_IDLE_MODE [], 0), (Msleep 0, 0),
           (Dcs_write MIPI_DCS_EXIT_IDLE_MODE [], 0)]\<rparr>)
   \<and> int 0 * 1000000 < 0 + uint (4294967295::u32) * 1000000 - 0"
  by (simp add: am4001280atzqw00h_wait_def ktime_get_eq clock_read_def hw_ret_eq hw_void_def Let_def
      probe_def int_ret_hw_ok hw_ok_def ktime_add_def ktime_sub_def ms_to_ktime_def ktime_to_ms_def
      ktime_before_def wrap_s64_def wrap_u32_def signed_divide_int_def)

text \<open>
  Claim C10, amended. With \<open>now\<close> the clock reading and \<open>enter\<close> the value \<^verbatim>\<open>ret\<close> holds after
  the enter-idle write:
  \<^item> for \<open>min_ms = 0\<close> the call returns 1 and the handle, log included, is unchanged;
  \<^item> a failing enter-idle write ends the call with its error;
  \<^item> otherwise, for every input, the calls are clock, enter-idle, at most one sleep,
    exit-idle, in this order, and the value returned is the error of the exit-idle
    write, or 0;
  \<^item> when the deadline \<open>start + min_ms\<close> fits \<^verbatim>\<open>ktime_t\<close> and has passed at the clock
    reading, there is no sleep;
  \<^item> when the deadline has not passed and the time arithmetic does not wrap, there is
    a sleep, of \<open>ms\<close> milliseconds that cover the remaining nanoseconds.
\<close>

theorem wait_dwell:
  assumes run: "am4001280atzqw00h_wait hw start min_ms s = (ret, s')"
      and now: "now = clock_read hw (length (hw_log s))"
      and enter: "enter = int_ret hw (Suc (length (hw_log s))) (Dcs_write MIPI_DCS_ENTER_IDLE_MODE [])"
  shows "(min_ms = 0 \<longrightarrow> ret = 1 \<and> s' = s)
       \<and> (min_ms \<noteq> 0 \<and> enter < 0 \<longrightarrow>
            ret = enter \<and> map fst (issued s s') = [Ktime_get, Dcs_write MIPI_DCS_ENTER_IDLE_MODE []])
       \<and> (min_ms \<noteq> 0 \<and> 0 \<le> enter \<longrightarrow>
            (map fst (issued s s') = [Ktime_get, Dcs_write MIPI_DCS_ENTER_IDLE_MODE [],
                                      Dcs_write MIPI_DCS_EXIT_IDLE_MODE []]
             \<or> (\<exists>ms. map fst (issued s s') = [Ktime_get, Dcs_write MIPI_DCS_ENTER_IDLE_MODE [],
                                               Msleep ms, Dcs_write MIPI_DCS_EXIT_IDLE_MODE []]))
            \<and> ret = min 0 (snd (last (issued s s'))))
       \<and> (min_ms \<noteq> 0 \<and> 0 \<le> enter \<and> ktime_in_range (start + uint min_ms * 1000000)
              \<and> start + uint min_ms * 1000000 \<le> now \<longrightarrow>
            map fst (issued s s') = [Ktime_get, Dcs_write MIPI_DCS_ENTER_IDLE_MODE [],
                                     Dcs_write MIPI_DCS_EXIT_IDLE_MODE []])
       \<and> (min_ms \<noteq> 0 \<and> 0 \<le> enter \<and> wait_no_overflow start min_ms now
              \<and> now < start + uint min_ms * 1000000 \<longrightarrow>
            (\<exists>ms. map fst (issued s s') = [Ktime_get, Dcs_write MIPI_DCS_ENTER_IDLE_MODE [],
                                            Msleep ms, Dcs_write MIPI_DCS_EXIT_IDLE_MODE []]
                  \<and> start + uint min_ms * 1000000 - now \<le> int ms * 1000000))"
proof -
  let ?d = "start + uint min_ms * 1000000"
  have c1: "ret = 1 \<and> s' = s" if "min_ms = 0"
    using that run by (simp add: am4001280atzqw00h_wait_def)
  have c2: "ret = enter \<and> map fst (issued s s') = [Ktime_get, Dcs_write MIPI_DCS_ENTER_IDLE_MODE []]"
    if "min_ms \<noteq> 0 \<and> enter < 0"
    using that run enter
    by (auto simp: am4001280atzqw00h_wait_def ktime_get_eq hw_ret_eq issued_def Let_def)
  have c3: "(map fst (issued s s') = [Ktime_get, Dcs_write MIPI_DCS_ENTER_IDLE_MODE [],
                                      Dcs_write MIPI_DCS_EXIT_IDLE_MODE []]
             \<or> (\<exists>ms. map fst (issued s s') = [Ktime_get, Dcs_write MIPI_DCS_ENTER_IDLE_MODE [],
                                               Msleep ms, Dcs_write MIPI_DCS_EXIT_IDLE_MODE []]))
            \<and> ret = min 0 (snd (last (issued s s')))"
    if a: "min_ms \<noteq> 0 \<and> 0 \<le> enter"
  proof -
    from a enter have "min_ms \<noteq> 0"
      "0 \<le> int_ret hw (Suc (length (hw_log s))) (Dcs_write MIPI_DCS_ENTER_IDLE_MODE [])"
      by simp_all
    from wait_calls[OF run this] show ?thesis
      by (cases "ktime_before (clock_read hw (length (hw_log s)))
                   (ktime_add start (ms_to_ktime (uint min_ms)))") simp_all
  qed
  have c4: "map fst (issued s s') = [Ktime_get, Dcs_write MIPI_DCS_ENTER_IDLE_MODE [],
                                     Dcs_write MIPI_DCS_EXIT_IDLE_MODE []]"
    if a: "min_ms \<noteq> 0 \<and> 0 \<le> enter \<and> ktime_in_range ?d \<and> ?d \<le> now"
  proof -
    from a enter have p: "min_ms \<noteq> 0"
      "0 \<le> int_ret hw (Suc (length (hw_log s))) (Dcs_write MIPI_DCS_ENTER_IDLE_MODE [])"
      by simp_all
    from a now have nb: "\<not> ktime_before (clock_read hw (length (hw_log s)))
                   (ktime_add start (ms_to_ktime (uint min_ms)))"
      by (simp add: before_iff)
    from wait_calls[OF run p] nb show ?thesis by simp
  qed
  have c5: "\<exists>ms. map fst (issued s s') = [Ktime_get, Dcs_write MIPI_DCS_ENTER_IDLE_MODE [],
                                            Msleep ms, Dcs_write MIPI_DCS_EXIT_IDLE_MODE []]
                  \<and> ?d - now \<le> int ms * 1000000"
    if a: "min_ms \<noteq> 0 \<and> 0 \<le> enter \<and> wait_no_overflow start min_ms now \<and> now < ?d"
  proof -
    let ?ms = "nat ((?d - now) div 1000000 + 1)"
    from a enter have p: "min_ms \<noteq> 0"
      "0 \<le> int_ret hw (Suc (length (hw_log s))) (Dcs_write MIPI_DCS_ENTER_IDLE_MODE [])"
      by simp_all
    from a have rng: "ktime_in_range ?d" by (simp add: wait_no_overflow_def)
    from a now rng have b: "ktime_before (clock_read hw (length (hw_log s)))
                   (ktime_add start (ms_to_ktime (uint min_ms)))"
      by (simp add: before_iff)
    from a now have arg: "wrap_u32 (ktime_to_ms (ktime_sub (ktime_add start (ms_to_ktime (uint min_ms)))
             (clock_read hw (length (hw_log s)))) + 1) = (?d - now) div 1000000 + 1"
      using msleep_arg[of start min_ms now] by simp
    have enough: "?d - now \<le> int ?ms * 1000000"
    proof -
      from a have "0 < ?d - now" by simp
      then have "0 \<le> (?d - now) div 1000000" by simp
      then have "int ?ms = (?d - now) div 1000000 + 1" by simp
      moreover have "?d - now < ((?d - now) div 1000000 + 1) * 1000000"
        using div_mult_mod_eq[of "?d - now" 1000000] pos_mod_bound[of 1000000 "?d - now"]
        by (simp add: algebra_simps)
      ultimately show ?thesis by simp
    qed
    from wait_calls[OF run p] b arg
    have "map fst (issued s s') = [Ktime_get, Dcs_write MIPI_DCS_ENTER_IDLE_MODE [],
                                   Msleep ?ms, Dcs_write MIPI_DCS_EXIT_IDLE_MODE []]"
      by simp
    with enough show ?thesis by (intro exI[of _ ?ms]) simp
  qed
  from c1 c2 c3 c4 c5 show ?thesis by blast
qed

theorem wait_dwell_witness:
  "am4001280atzqw00h_wait hw_clock_10ms 0 50 (probe None)
     = (0, (probe None)\<lparr>hw_log :=
          [(Ktime_get, 10000000), (Dcs_write MIPI_DCS_ENTER_IDLE_MODE [], 0), (Msleep 41, 0),
           (Dcs_write MIPI_DCS_EXIT_IDLE_MODE [], 0)]\<rparr>)
   \<and> wait_no_overflow 0 50 10000000
   \<and> (\<exists>ms. map fst (issued (probe None) (snd (am4001280atzqw00h_wait hw_clock_10ms 0 50 (probe None))))
              = [Ktime_get, Dcs_write MIPI_DCS_ENTER_IDLE_MODE [], Msleep ms, Dcs_write MIPI_DCS_EXIT_IDLE_MODE []]
            \<and> 0 + uint (50::u32) * 1000000 - 10000000 \<le> int ms * 1000000)"
proof -
  let ?s' = "(probe None)\<lparr>hw_log :=
          [(Ktime_get, 10000000), (Dcs_write MIPI_DCS_ENTER_IDLE_MODE [], 0), (Msleep 41, 0),
           (Dcs_write MIPI_DCS_EXIT_IDLE_MODE [], 0)]\<rparr>"
  have run: "am4001280atzqw00h_wait hw_clock_10ms 0 50 (probe None) = (0, ?s')"
    by (simp add: am4001280atzqw00h_wait_def ktime_get_eq clock_read_def hw_ret_eq int_ret_def
        hw_void_def Let_def probe_def
        hw_clock_10ms_def ktime_add_def ktime_sub_def ms_to_ktime_def ktime_to_ms_def ktime_before_def
        wrap_s64_def wrap_s32_def wrap_u32_def signed_divide_int_def)
  have now: "(10000000::int) = clock_read hw_clock_10ms (length (hw_log (probe None)))"
    by (simp add: hw_clock_10ms_def clock_read_def wrap_s64_def)
  have enter: "(0::int) = int_ret hw_clock_10ms (Suc (length (hw_log (probe None)))) (Dcs_write MIPI_DCS_ENTER_IDLE_MODE [])"
    by (simp add: hw_clock_10ms_def int_ret_def wrap_s32_def)
  have ok: "wait_no_overflow 0 50 10000000"
    by (simp add: wait_no_overflow_def ktime_in_range_def)
  from wait_dwell[OF run now enter] ok run show ?thesis by simp
qed

end
